theory Spec2Isabelle
  imports Complex_Main "HOL-Library.Word"
begin

section \<open>Data model of the ZeroMQ distributed in-memory connector\<close>

text \<open>
  The development embeds \<^verbatim>\<open>proxystore/connectors/dim/zmqstream.py\<close>: the
  \<^verbatim>\<open>ZeroMQServer\<close> (a dictionary of byte payloads and streams with the four handlers and
  \<^verbatim>\<open>handle_rpc\<close>) and the \<^verbatim>\<open>ZeroMQConnector\<close> (the client that builds keys and RPCs and
  exchanges them with the server owning the key's host and port).

  Python raises are values: a call ends in \<open>Return v\<close>, in \<open>Raise e\<close>, or in \<open>Blocked\<close>
  when it never returns (a blocking read that nothing can wake). Every function that
  mutates state returns the state next to its outcome, since a mutation done before a
  raise stays done.
\<close>

type_synonym bytes = "8 word list"

datatype error =
    KeyError string
  | AttributeError
  | AssertionError string
  | InvalidStateError
  | ServerTimeoutError
  | TypeError
  | ValueError
  | ZMQError

datatype 'a outcome = Return 'a | Raise error | Blocked

text \<open>
  \<^verbatim>\<open>DIMKey\<close>, \<^verbatim>\<open>RPC\<close> and \<^verbatim>\<open>RPCResponse\<close> are declared in
  \<^verbatim>\<open>proxystore/connectors/dim/models.py\<close>; their fields are the ones the connector and
  the server read and write. The field \<^verbatim>\<open>size\<close> of the key is named \<open>key_size\<close>, and the
  fields of the response carry the prefix \<open>resp_\<close>, as the plain names are taken.
\<close>

record DIMKey =
  dim_type :: string
  obj_id :: string
  key_size :: int
  peer_host :: string
  peer_port :: int
  stream_id :: "string option"

record RPC =
  operation :: string
  key :: DIMKey
  data :: "bytes option"
  client_id :: "string option"

subsection \<open>The stream object\<close>

text \<open>
  Modelled from the spec: the class \<^verbatim>\<open>ProxyStream\<close> of \<^verbatim>\<open>proxystore.streaming\<close> is not
  among the sources; the server calls its \<^verbatim>\<open>append\<close>, \<^verbatim>\<open>end_stream\<close>, \<^verbatim>\<open>connect\<close> and
  \<^verbatim>\<open>next_data\<close> and reads its \<^verbatim>\<open>proxy_uuids\<close>. The spec describes a stream as an
  append-only sequence of object ids, a read cursor per client starting at 0, and an
  \<open>ended\<close> flag: append fails with InvalidStateError once ended; end is idempotent;
  registering a client is idempotent; next returns the next unread id and advances the
  cursor, signals exhaustion (here \<open>None\<close>) when ended and caught up, and otherwise
  waits for an append or the end. The server handles one request at a time, so a wait
  that finds nothing never returns: \<open>Blocked\<close>.
\<close>

record ProxyStream =
  proxy_uuids :: "string list"
  cursors :: "string option \<rightharpoonup> nat"
  ended :: bool

definition new_stream :: ProxyStream where
  "new_stream = \<lparr>proxy_uuids = [], cursors = Map.empty, ended = False\<rparr>"

definition append :: "ProxyStream \<Rightarrow> string \<Rightarrow> error + ProxyStream" where
  "append st i =
     (if ended st then Inl InvalidStateError
      else Inr (st\<lparr>proxy_uuids := proxy_uuids st @ [i]\<rparr>))"

definition end_stream :: "ProxyStream \<Rightarrow> ProxyStream" where
  "end_stream st = st\<lparr>ended := True\<rparr>"

definition connect :: "ProxyStream \<Rightarrow> string option \<Rightarrow> ProxyStream" where
  "connect st host =
     (case cursors st host of
        None \<Rightarrow> st\<lparr>cursors := (cursors st)(host \<mapsto> 0)\<rparr>
      | Some _ \<Rightarrow> st)"

definition next_data :: "ProxyStream \<Rightarrow> string option \<Rightarrow> string option outcome \<times> ProxyStream" where
  "next_data st host =
     (let i = (case cursors st host of None \<Rightarrow> 0 | Some c \<Rightarrow> c)
      in if i < length (proxy_uuids st)
         then (Return (Some (proxy_uuids st ! i)), st\<lparr>cursors := (cursors st)(host \<mapsto> Suc i)\<rparr>)
         else if ended st then (Return None, st)
         else (Blocked, st))"

subsection \<open>The server's store and the response\<close>

text \<open>
  \<^verbatim>\<open>self.data: dict[str, bytes | ProxyStream]\<close>: one dictionary holds both the byte
  payloads and the stream objects. A response's \<^verbatim>\<open>data\<close> is whatever \<^verbatim>\<open>self.data.get\<close>
  returned, so it is an entry of that dictionary.
\<close>

datatype entry = Bytes bytes | Stream ProxyStream

type_synonym store = "string \<rightharpoonup> entry"

record RPCResponse =
  resp_operation :: string
  resp_key :: DIMKey
  resp_data :: "entry option"
  resp_exists :: "bool option"
  resp_exception :: "error option"

section \<open>ZeroMQServer\<close>

definition pop_all :: "string list \<Rightarrow> store \<Rightarrow> store" where
  "pop_all ids d = fold (\<lambda>i m. m(i := None)) ids d"

definition server_evict :: "DIMKey \<Rightarrow> store \<Rightarrow> unit outcome \<times> store" where
  "server_evict k d =
     (case stream_id k of
        Some s \<Rightarrow>
          (case d s of
             None \<Rightarrow> (Raise (KeyError s), d)
           | Some (Bytes b) \<Rightarrow> (Raise AttributeError, d)
           | Some (Stream st) \<Rightarrow>
               (let st' = end_stream st;
                    d1 = d(s \<mapsto> Stream st');
                    d2 = pop_all (proxy_uuids st') d1
                in (Return (), d2(obj_id k := None))))
      | None \<Rightarrow> (Return (), d(obj_id k := None)))"

definition server_exists :: "DIMKey \<Rightarrow> store \<Rightarrow> bool" where
  "server_exists k d = (d (obj_id k) \<noteq> None)"

definition server_put :: "DIMKey \<Rightarrow> bytes \<Rightarrow> store \<Rightarrow> unit outcome \<times> store" where
  "server_put k b d =
     (case stream_id k of
        Some s \<Rightarrow>
          (let d0 = (case d s of None \<Rightarrow> d(s \<mapsto> Stream new_stream) | Some _ \<Rightarrow> d)
           in case d0 s of
                Some (Stream st) \<Rightarrow>
                  (case append st (obj_id k) of
                     Inl e \<Rightarrow> (Raise e, d0)
                   | Inr st' \<Rightarrow> (Return (), (d0(s \<mapsto> Stream st'))(obj_id k \<mapsto> Bytes b)))
              | _ \<Rightarrow> (Raise AttributeError, d0))
      | None \<Rightarrow> (Return (), d(obj_id k \<mapsto> Bytes b)))"

definition server_get :: "DIMKey \<Rightarrow> string option \<Rightarrow> store \<Rightarrow> entry option outcome \<times> store" where
  "server_get k host_id d =
     (case stream_id k of
        Some s \<Rightarrow>
          (case d s of
             None \<Rightarrow> (Raise (KeyError s), d)
           | Some (Bytes b) \<Rightarrow> (Raise AttributeError, d)
           | Some (Stream st) \<Rightarrow>
               (let st1 = connect st host_id in
                (case next_data st1 host_id of
                   (Return proxy_uuid, st2) \<Rightarrow>
                     (let d2 = d(s \<mapsto> Stream st2)
                      in (Return (case proxy_uuid of None \<Rightarrow> None | Some i \<Rightarrow> d2 i), d2))
                 | (Raise e, st2) \<Rightarrow> (Raise e, d(s \<mapsto> Stream st2))
                 | (Blocked, st2) \<Rightarrow> (Blocked, d(s \<mapsto> Stream st2)))))
      | None \<Rightarrow> (Return (d (obj_id k)), d))"

text \<open>
  The body of the \<^verbatim>\<open>try\<close> of \<^verbatim>\<open>handle_rpc\<close>: the chain of comparisons of
  \<^verbatim>\<open>rpc.operation\<close> against the four literals, the \<^verbatim>\<open>assert\<close> on the data of a put, and
  the final \<^verbatim>\<open>raise AssertionError('Unreachable.')\<close>.
\<close>

definition response :: "string \<Rightarrow> DIMKey \<Rightarrow> RPCResponse" where
  "response opn k =
     \<lparr>resp_operation = opn, resp_key = k, resp_data = None, resp_exists = None,
      resp_exception = None\<rparr>"

definition dispatch :: "RPC \<Rightarrow> store \<Rightarrow> RPCResponse outcome \<times> store" where
  "dispatch rpc d =
     (if operation rpc = ''exists'' then
        (Return ((response ''exists'' (key rpc))\<lparr>resp_exists := Some (server_exists (key rpc) d)\<rparr>), d)
      else if operation rpc = ''evict'' then
        (case server_evict (key rpc) d of
           (Return _, d') \<Rightarrow> (Return (response ''evict'' (key rpc)), d')
         | (Raise e, d') \<Rightarrow> (Raise e, d')
         | (Blocked, d') \<Rightarrow> (Blocked, d'))
      else if operation rpc = ''get'' then
        (case server_get (key rpc) (client_id rpc) d of
           (Return v, d') \<Rightarrow> (Return ((response ''get'' (key rpc))\<lparr>resp_data := v\<rparr>), d')
         | (Raise e, d') \<Rightarrow> (Raise e, d')
         | (Blocked, d') \<Rightarrow> (Blocked, d'))
      else if operation rpc = ''put'' then
        (case data rpc of
           None \<Rightarrow> (Raise (AssertionError []), d)
         | Some b \<Rightarrow>
             (case server_put (key rpc) b d of
                (Return _, d') \<Rightarrow> (Return (response ''put'' (key rpc)), d')
              | (Raise e, d') \<Rightarrow> (Raise e, d')
              | (Blocked, d') \<Rightarrow> (Blocked, d')))
      else (Raise (AssertionError ''Unreachable.''), d))"

definition handle_rpc :: "RPC \<Rightarrow> store \<Rightarrow> RPCResponse outcome \<times> store" where
  "handle_rpc rpc d =
     (case dispatch rpc d of
        (Raise e, d') \<Rightarrow>
          (Return ((response (operation rpc) (key rpc))\<lparr>resp_exception := Some e\<rparr>), d')
      | r \<Rightarrow> r)"

section \<open>The transport and the server loop\<close>

text \<open>
  The network is the set of running servers, each bound to a host and a port and holding
  its store, and the record of what crossed the wire, in order. \<^verbatim>\<open>serialize\<close>,
  \<^verbatim>\<open>deserialize\<close> and \<^verbatim>\<open>utils.chunk_bytes\<close> are not among the sources: a request sent
  in chunks reaches the server as the request that was serialized, joined and
  deserialized, and so does the response on its way back.

  \<open>exchange\<close> is one round of the REQ socket of \<^verbatim>\<open>_send_rpcs\<close> against the loop of
  \<^verbatim>\<open>run_server\<close>: the request is sent to the server bound at the key's \<^verbatim>\<open>peer_host\<close> and
  \<^verbatim>\<open>peer_port\<close>, the loop calls \<^verbatim>\<open>handle_rpc\<close> and sends the response back. With no
  server bound there, or with a handler that never returns, \<^verbatim>\<open>recv_multipart\<close> never
  returns either. The loop has no \<^verbatim>\<open>try\<close> of its own: an exception leaving
  \<^verbatim>\<open>handle_rpc\<close> would end the server process.
\<close>

datatype event = Sent RPC | Received RPCResponse

record network =
  servers :: "(string \<times> int) \<rightharpoonup> store"
  wire :: "event list"

definition exchange :: "RPC \<Rightarrow> network \<Rightarrow> RPCResponse outcome \<times> network" where
  "exchange rpc net =
     (let peer = (peer_host (key rpc), peer_port (key rpc));
          net1 = net\<lparr>wire := wire net @ [Sent rpc]\<rparr>
      in case servers net1 peer of
           None \<Rightarrow> (Blocked, net1)
         | Some d \<Rightarrow>
             (case handle_rpc rpc d of
                (Return resp, d') \<Rightarrow>
                  (Return resp,
                   net1\<lparr>servers := (servers net1)(peer \<mapsto> d'),
                        wire := wire net1 @ [Received resp]\<rparr>)
              | (Raise e, d') \<Rightarrow> (Blocked, net1\<lparr>servers := (servers net1)(peer := None)\<rparr>)
              | (Blocked, d') \<Rightarrow> (Blocked, net1\<lparr>servers := (servers net1)(peer \<mapsto> d')\<rparr>)))"

section \<open>ZeroMQConnector\<close>

text \<open>
  The attributes of the connector. \<^verbatim>\<open>_address\<close>, \<^verbatim>\<open>_interface\<close> and \<^verbatim>\<open>_client_id\<close> are
  \<open>priv_address\<close>, \<open>priv_interface\<close> and \<open>priv_client_id\<close>. \<^verbatim>\<open>server\<close> is the handle of
  the process the connector spawned, identified by the endpoint that process serves,
  or \<open>None\<close>. The socket and the context are represented by whether they are still open.
  \<^verbatim>\<open>url\<close> is only printed and logged and is left out.
\<close>

record connector =
  priv_address :: "string option"
  priv_interface :: "string option"
  priv_client_id :: string
  port :: int
  chunk_length :: int
  timeout :: real
  address :: string
  server :: "(string \<times> int) option"
  socket_open :: bool
  context_live :: bool

text \<open>
  \<^verbatim>\<open>_send_rpcs\<close>: for each request in turn, send it and wait for its response; raise the
  response's exception if it has one; check that operation and key match; collect the
  response. A closed socket refuses \<^verbatim>\<open>connect\<close>.
\<close>

fun send_rpcs :: "connector \<Rightarrow> RPC list \<Rightarrow> network \<Rightarrow> RPCResponse list outcome \<times> network" where
  "send_rpcs c [] net = (Return [], net)"
| "send_rpcs c (rpc # rpcs) net =
     (if \<not> socket_open c then (Raise ZMQError, net)
      else
        (case exchange rpc net of
           (Return resp, net1) \<Rightarrow>
             (case resp_exception resp of
                Some e \<Rightarrow> (Raise e, net1)
              | None \<Rightarrow>
                  if operation rpc \<noteq> resp_operation resp then (Raise (AssertionError []), net1)
                  else if key rpc \<noteq> resp_key resp then (Raise (AssertionError []), net1)
                  else
                    (case send_rpcs c rpcs net1 of
                       (Return rs, net2) \<Rightarrow> (Return (resp # rs), net2)
                     | (Raise e, net2) \<Rightarrow> (Raise e, net2)
                     | (Blocked, net2) \<Rightarrow> (Blocked, net2)))
         | (Raise e, net1) \<Rightarrow> (Raise e, net1)
         | (Blocked, net1) \<Rightarrow> (Blocked, net1)))"

definition rpc_evict :: "connector \<Rightarrow> DIMKey \<Rightarrow> RPC" where
  "rpc_evict c k = \<lparr>operation = ''evict'', key = k, data = None, client_id = Some (priv_client_id c)\<rparr>"

definition rpc_exists :: "DIMKey \<Rightarrow> RPC" where
  "rpc_exists k = \<lparr>operation = ''exists'', key = k, data = None, client_id = None\<rparr>"

definition rpc_get :: "connector \<Rightarrow> DIMKey \<Rightarrow> RPC" where
  "rpc_get c k = \<lparr>operation = ''get'', key = k, data = None, client_id = Some (priv_client_id c)\<rparr>"

definition rpc_put :: "DIMKey \<Rightarrow> bytes \<Rightarrow> RPC" where
  "rpc_put k obj = \<lparr>operation = ''put'', key = k, data = Some obj, client_id = None\<rparr>"

definition connector_evict :: "connector \<Rightarrow> DIMKey \<Rightarrow> network \<Rightarrow> unit outcome \<times> network" where
  "connector_evict c k net =
     (case send_rpcs c [rpc_evict c k] net of
        (Return rs, net') \<Rightarrow> (Return (), net')
      | (Raise e, net') \<Rightarrow> (Raise e, net')
      | (Blocked, net') \<Rightarrow> (Blocked, net'))"

text \<open>
  \<^verbatim>\<open>(response,) = self._send_rpcs([rpc])\<close> raises ValueError unless the list has one
  element.
\<close>

definition connector_exists :: "connector \<Rightarrow> DIMKey \<Rightarrow> network \<Rightarrow> bool outcome \<times> network" where
  "connector_exists c k net =
     (case send_rpcs c [rpc_exists k] net of
        (Return [r], net') \<Rightarrow>
          (case resp_exists r of
             None \<Rightarrow> (Raise (AssertionError []), net')
           | Some b \<Rightarrow> (Return b, net'))
      | (Return rs, net') \<Rightarrow> (Raise ValueError, net')
      | (Raise e, net') \<Rightarrow> (Raise e, net')
      | (Blocked, net') \<Rightarrow> (Blocked, net'))"

text \<open>
  \<^verbatim>\<open>get\<close> accepts \<^verbatim>\<open>None\<close> for the key; \<^verbatim>\<open>_send_rpcs\<close> then fails on
  \<^verbatim>\<open>rpc.key.peer_host\<close> with AttributeError before anything is sent.
\<close>

definition connector_get :: "connector \<Rightarrow> DIMKey option \<Rightarrow> network \<Rightarrow> entry option outcome \<times> network" where
  "connector_get c k net =
     (case k of
        None \<Rightarrow> (Raise AttributeError, net)
      | Some k' \<Rightarrow>
          (case send_rpcs c [rpc_get c k'] net of
             (Return [r], net') \<Rightarrow> (Return (resp_data r), net')
           | (Return rs, net') \<Rightarrow> (Raise ValueError, net')
           | (Raise e, net') \<Rightarrow> (Raise e, net')
           | (Blocked, net') \<Rightarrow> (Blocked, net')))"

definition connector_get_batch :: "connector \<Rightarrow> DIMKey list \<Rightarrow> network \<Rightarrow> entry option list outcome \<times> network" where
  "connector_get_batch c keys net =
     (case send_rpcs c (map (rpc_get c) keys) net of
        (Return rs, net') \<Rightarrow> (Return (map resp_data rs), net')
      | (Raise e, net') \<Rightarrow> (Raise e, net')
      | (Blocked, net') \<Rightarrow> (Blocked, net'))"

text \<open>
  \<^verbatim>\<open>str(uuid.uuid4())\<close> is an effect of the environment: a call of the connector takes the
  identifiers it will draw as a function, \<open>u 0\<close> the first one drawn, \<open>u 1\<close> the second.
\<close>

definition data_key :: "connector \<Rightarrow> string \<Rightarrow> bytes \<Rightarrow> string option \<Rightarrow> DIMKey" where
  "data_key c uid obj sid =
     \<lparr>dim_type = ''zmq'', obj_id = uid, key_size = int (length obj),
      peer_host = address c, peer_port = port c, stream_id = sid\<rparr>"

definition connector_put ::
  "connector \<Rightarrow> (nat \<Rightarrow> string) \<Rightarrow> bytes \<Rightarrow> DIMKey option \<Rightarrow> network \<Rightarrow> DIMKey option outcome \<times> network" where
  "connector_put c u obj k net =
     (let dk = (case k of
                  None \<Rightarrow> data_key c (u 0) obj None
                | Some k' \<Rightarrow> data_key c (u 0) obj (stream_id k'))
      in case send_rpcs c [rpc_put dk obj] net of
           (Return rs, net') \<Rightarrow> (Return k, net')
         | (Raise e, net') \<Rightarrow> (Raise e, net')
         | (Blocked, net') \<Rightarrow> (Blocked, net'))"

text \<open>
  \<^verbatim>\<open>put_batch\<close>: the keys are built one per object, reading \<^verbatim>\<open>key.stream_id\<close> for each
  (AttributeError when \<^verbatim>\<open>key\<close> is \<^verbatim>\<open>None\<close> and there is an object). The list of requests
  is the comprehension
  \<^verbatim>\<open>[RPC(...) for key in keys for key, obj in zip(keys, objs)]\<close>: the inner loop runs once
  for every element of \<^verbatim>\<open>keys\<close>.
\<close>

definition batch_keys :: "connector \<Rightarrow> (nat \<Rightarrow> string) \<Rightarrow> bytes list \<Rightarrow> string option \<Rightarrow> DIMKey list" where
  "batch_keys c u objs sid =
     map (\<lambda>(i, obj). data_key c (u i) obj sid) (zip [0..<length objs] objs)"

definition batch_rpcs :: "DIMKey list \<Rightarrow> bytes list \<Rightarrow> RPC list" where
  "batch_rpcs keys objs =
     concat (map (\<lambda>_. map (\<lambda>(k, obj). rpc_put k obj) (zip keys objs)) keys)"

definition connector_put_batch ::
  "connector \<Rightarrow> (nat \<Rightarrow> string) \<Rightarrow> bytes list \<Rightarrow> DIMKey option \<Rightarrow> network \<Rightarrow> DIMKey list outcome \<times> network" where
  "connector_put_batch c u objs k net =
     (if objs \<noteq> [] \<and> k = None then (Raise AttributeError, net)
      else
        (let keys = batch_keys c u objs (case k of None \<Rightarrow> None | Some k' \<Rightarrow> stream_id k')
         in case send_rpcs c (batch_rpcs keys objs) net of
              (Return rs, net') \<Rightarrow> (Return keys, net')
            | (Raise e, net') \<Rightarrow> (Raise e, net')
            | (Blocked, net') \<Rightarrow> (Blocked, net')))"

definition create_stream :: "connector \<Rightarrow> (nat \<Rightarrow> string) \<Rightarrow> DIMKey" where
  "create_stream c u =
     \<lparr>dim_type = ''zmq'', obj_id = u 0, key_size = 0,
      peer_host = address c, peer_port = port c, stream_id = Some (u 0)\<rparr>"

definition close_stream :: "connector \<Rightarrow> DIMKey \<Rightarrow> network \<Rightarrow> unit outcome \<times> network" where
  "close_stream c k net = connector_evict c k net"

subsection \<open>Construction, close and configuration\<close>

text \<open>
  The environment of a construction: \<^verbatim>\<open>get_ip_address\<close> (of
  \<^verbatim>\<open>proxystore.connectors.dim.utils\<close>, not among the sources) and
  \<^verbatim>\<open>socket.gethostbyname(socket.gethostname())\<close> as given values, and \<open>timely t\<close>, whether
  the pong of a running server arrives within \<open>t\<close> seconds: the clock readings and the
  polling of \<^verbatim>\<open>wait_for_server\<close> are reduced to this one answer.
\<close>

record environment =
  get_ip_address :: "string \<Rightarrow> string"
  gethostbyname :: string
  timely :: "real \<Rightarrow> bool"

definition MAX_CHUNK_LENGTH_DEFAULT :: int where
  "MAX_CHUNK_LENGTH_DEFAULT = 64 * 1024"

definition wait_for_server :: "environment \<Rightarrow> string \<Rightarrow> int \<Rightarrow> real \<Rightarrow> network \<Rightarrow> unit outcome" where
  "wait_for_server env a p t net =
     (if servers net (a, p) \<noteq> None \<and> timely env t then Return ()
      else Raise ServerTimeoutError)"

text \<open>
  \<^verbatim>\<open>spawn_server\<close> starts a process running \<^verbatim>\<open>start_server\<close>, which binds the endpoint with
  an empty store unless a server is bound there already, and then waits for it. The
  handle it returns stands for that process.
\<close>

definition spawn_server ::
  "environment \<Rightarrow> string \<Rightarrow> int \<Rightarrow> real \<Rightarrow> network \<Rightarrow> (string \<times> int) outcome \<times> network" where
  "spawn_server env a p spawn_timeout net =
     (let net1 = (case servers net (a, p) of
                    None \<Rightarrow> net\<lparr>servers := (servers net)((a, p) \<mapsto> Map.empty)\<rparr>
                  | Some _ \<Rightarrow> net)
      in case wait_for_server env a p spawn_timeout net1 of
           Return _ \<Rightarrow> (Return (a, p), net1)
         | Raise e \<Rightarrow> (Raise e, net1)
         | Blocked \<Rightarrow> (Blocked, net1))"

definition init ::
  "environment \<Rightarrow> (nat \<Rightarrow> string) \<Rightarrow> int \<Rightarrow> string option \<Rightarrow> string option \<Rightarrow> int option \<Rightarrow> real
     \<Rightarrow> network \<Rightarrow> connector outcome \<times> network" where
  "init env u port' address' interface' chunk_length' timeout' net =
     (let cl = (case chunk_length' of None \<Rightarrow> MAX_CHUNK_LENGTH_DEFAULT | Some n \<Rightarrow> n);
          addr = (case address' of
                    Some a \<Rightarrow> a
                  | None \<Rightarrow>
                      (case interface' of
                         Some i \<Rightarrow> get_ip_address env i
                       | None \<Rightarrow> gethostbyname env));
          self = (\<lambda>srv.
                    \<lparr>priv_address = address', priv_interface = interface',
                     priv_client_id = u 0, port = port', chunk_length = cl,
                     timeout = timeout', address = addr, server = srv,
                     socket_open = True, context_live = True\<rparr>)
      in case wait_for_server env addr port' timeout' net of
           Return _ \<Rightarrow> (Return (self None), net)
         | Raise e \<Rightarrow>
             if e = ServerTimeoutError then
               (case spawn_server env addr port' timeout' net of
                  (Return h, net1) \<Rightarrow> (Return (self (Some h)), net1)
                | (Raise e', net1) \<Rightarrow> (Raise e', net1)
                | (Blocked, net1) \<Rightarrow> (Blocked, net1))
             else (Raise e, net)
         | Blocked \<Rightarrow> (Blocked, net))"

text \<open>
  \<^verbatim>\<open>close\<close>: \<^verbatim>\<open>terminate\<close> and \<^verbatim>\<open>join\<close> end the spawned process, whose endpoint and store
  are gone with it; then the socket is closed and the context terminated.
\<close>

definition close :: "connector \<Rightarrow> bool \<Rightarrow> network \<Rightarrow> connector \<times> network" where
  "close c kill_server net =
     (let net1 = (if kill_server \<and> server c \<noteq> None
                  then (case server c of
                          Some h \<Rightarrow> net\<lparr>servers := (servers net)(h := None)\<rparr>
                        | None \<Rightarrow> net)
                  else net)
      in (c\<lparr>socket_open := False, context_live := False\<rparr>, net1))"

text \<open>
  The configuration is a \<^verbatim>\<open>dict[str, Any]\<close>: an association list from names to Python
  values. \<^verbatim>\<open>from_config\<close> is \<^verbatim>\<open>cls(**config)\<close>: a name that is no parameter of
  \<^verbatim>\<open>__init__\<close>, or no \<^verbatim>\<open>port\<close>, is a TypeError of the call; a parameter left out takes
  its default. The values are read at the types of the signature (\<^verbatim>\<open>timeout: float = 1\<close>
  accepts an int); a value of another type is outside this model and ends the call
  with TypeError as well.
\<close>

datatype pyval = PNone | PStr string | PInt int | PFloat real

definition config :: "connector \<Rightarrow> (string \<times> pyval) list" where
  "config c =
     [(''address'', (case priv_address c of None \<Rightarrow> PNone | Some a \<Rightarrow> PStr a)),
      (''interface'', (case priv_interface c of None \<Rightarrow> PNone | Some i \<Rightarrow> PStr i)),
      (''port'', PInt (port c)),
      (''chunk_length'', PInt (chunk_length c)),
      (''timeout'', PFloat (timeout c))]"

fun as_int :: "pyval \<Rightarrow> int option" where
  "as_int (PInt n) = Some n"
| "as_int _ = None"

fun as_opt_int :: "pyval \<Rightarrow> int option option" where
  "as_opt_int PNone = Some None"
| "as_opt_int (PInt n) = Some (Some n)"
| "as_opt_int _ = None"

fun as_opt_str :: "pyval \<Rightarrow> string option option" where
  "as_opt_str PNone = Some None"
| "as_opt_str (PStr s) = Some (Some s)"
| "as_opt_str _ = None"

fun as_float :: "pyval \<Rightarrow> real option" where
  "as_float (PFloat x) = Some x"
| "as_float (PInt n) = Some (of_int n)"
| "as_float _ = None"

definition kwarg :: "(string \<times> pyval) list \<Rightarrow> string \<Rightarrow> pyval \<Rightarrow> pyval" where
  "kwarg cfg name dflt = (case map_of cfg name of None \<Rightarrow> dflt | Some v \<Rightarrow> v)"

definition from_config ::
  "environment \<Rightarrow> (nat \<Rightarrow> string) \<Rightarrow> (string \<times> pyval) list \<Rightarrow> network \<Rightarrow> connector outcome \<times> network" where
  "from_config env u cfg net =
     (if \<not> set (map fst cfg) \<subseteq> {''port'', ''address'', ''interface'', ''chunk_length'', ''timeout''}
      then (Raise TypeError, net)
      else
        (case map_of cfg ''port'' of
           None \<Rightarrow> (Raise TypeError, net)
         | Some pv \<Rightarrow>
             (case (as_int pv,
                    as_opt_str (kwarg cfg ''address'' PNone),
                    as_opt_str (kwarg cfg ''interface'' PNone),
                    as_opt_int (kwarg cfg ''chunk_length'' PNone),
                    as_float (kwarg cfg ''timeout'' (PInt 1))) of
                (Some p, Some a, Some i, Some cl, Some t) \<Rightarrow> init env u p a i cl t net
              | _ \<Rightarrow> (Raise TypeError, net))))"

section \<open>Properties\<close>

text \<open>
  \<open>surfaces net res\<close>: the call that started on \<open>net\<close> and ended as \<open>res\<close> added events
  to the wire, and every response it received that carries an exception is the error
  the call raised.
\<close>

definition surfaces :: "network \<Rightarrow> 'a outcome \<times> network \<Rightarrow> bool" where
  "surfaces net res =
     (\<exists>evs. wire (snd res) = wire net @ evs
        \<and> (\<forall>r e. Received r \<in> set evs \<longrightarrow> resp_exception r = Some e \<longrightarrow> fst res = Raise e))"




text \<open>A connector on host \<open>''10.0.0.1''\<close>, port 5555, and a network with one server there.\<close>

definition demo_connector :: connector where
  "demo_connector =
     \<lparr>priv_address = Some ''10.0.0.1'', priv_interface = None, priv_client_id = ''client'',
      port = 5555, chunk_length = 65536, timeout = 1, address = ''10.0.0.1'', server = None,
      socket_open = True, context_live = True\<rparr>"

definition demo_network :: network where
  "demo_network = \<lparr>servers = [(''10.0.0.1'', 5555) \<mapsto> Map.empty], wire = []\<rparr>"

definition demo_key :: "string \<Rightarrow> string option \<Rightarrow> DIMKey" where
  "demo_key i sid =
     \<lparr>dim_type = ''zmq'', obj_id = i, key_size = 0, peer_host = ''10.0.0.1'', peer_port = 5555,
      stream_id = sid\<rparr>"

definition demo_uuid :: "nat \<Rightarrow> string" where
  "demo_uuid n = replicate (Suc n) CHR ''a''"

definition demo_environment :: environment where
  "demo_environment = \<lparr>get_ip_address = (\<lambda>i. ''10.0.0.2''), gethostbyname = ''10.0.0.3'', timely = (\<lambda>t. 0 < t)\<rparr>"


text \<open>A store with an open stream \<open>''s''\<close> of two packets and an object outside it.\<close>

definition demo_stream :: ProxyStream where
  "demo_stream = \<lparr>proxy_uuids = [''p'', ''q''], cursors = Map.empty, ended = False\<rparr>"

definition demo_store :: store where
  "demo_store = [''s'' \<mapsto> Stream demo_stream, ''p'' \<mapsto> Bytes [1], ''q'' \<mapsto> Bytes [2], ''z'' \<mapsto> Bytes [3]]"

section \<open>The server\<close>

lemma pop_all_apply: "pop_all ids d i = (if i \<in> set ids then None else d i)"
  unfolding pop_all_def by (induction ids arbitrary: d) auto

text \<open>
  C3. Whatever the request, \<open>handle_rpc\<close> raises nothing: when the handler it dispatches
  to (evict, get or put; the membership test of exists raises nothing) raises \<open>e\<close>, it
  returns a response with the operation and the key of the request and \<open>e\<close> as its
  exception, and leaves the store as the handler left it. Every response it returns
  carries the operation and the key of its request. So the loop of the server, which
  has no handler of its own, goes on to the next request.
\<close>

theorem handle_rpc_isolates_failures:
  "(operation rpc = ''evict'' \<and> fst (server_evict (key rpc) d) = Raise e \<longrightarrow>
      handle_rpc rpc d =
        (Return ((response (operation rpc) (key rpc))\<lparr>resp_exception := Some e\<rparr>),
         snd (server_evict (key rpc) d)))
 \<and> (operation rpc = ''get'' \<and> fst (server_get (key rpc) (client_id rpc) d) = Raise e \<longrightarrow>
      handle_rpc rpc d =
        (Return ((response (operation rpc) (key rpc))\<lparr>resp_exception := Some e\<rparr>),
         snd (server_get (key rpc) (client_id rpc) d)))
 \<and> (operation rpc = ''put'' \<and> data rpc = Some b \<and> fst (server_put (key rpc) b d) = Raise e \<longrightarrow>
      handle_rpc rpc d =
        (Return ((response (operation rpc) (key rpc))\<lparr>resp_exception := Some e\<rparr>),
         snd (server_put (key rpc) b d)))
 \<and> (\<forall>r d'. handle_rpc rpc d = (Return r, d') \<longrightarrow>
        resp_operation r = operation rpc \<and> resp_key r = key rpc)
 \<and> (\<forall>e'. fst (handle_rpc rpc d) \<noteq> Raise e')"
  by (auto simp: handle_rpc_def dispatch_def response_def
           split: prod.splits outcome.splits option.splits if_splits)

theorem handle_rpc_isolates_failures_witness:
  "handle_rpc (rpc_evict demo_connector (demo_key ''k'' (Some ''s''))) Map.empty
     = (Return ((response ''evict'' (demo_key ''k'' (Some ''s'')))\<lparr>resp_exception := Some (KeyError ''s'')\<rparr>),
        Map.empty)
 \<and> handle_rpc (rpc_get demo_connector (demo_key ''k'' (Some ''s''))) [''s'' \<mapsto> Bytes [1]]
     = (Return ((response ''get'' (demo_key ''k'' (Some ''s'')))\<lparr>resp_exception := Some AttributeError\<rparr>),
        [''s'' \<mapsto> Bytes [1]])
 \<and> handle_rpc (rpc_put (demo_key ''k'' (Some ''s'')) [2])
        [''s'' \<mapsto> Stream (end_stream new_stream)]
     = (Return ((response ''put'' (demo_key ''k'' (Some ''s'')))\<lparr>resp_exception := Some InvalidStateError\<rparr>),
        [''s'' \<mapsto> Stream (end_stream new_stream)])"
proof -
  let ?k = "demo_key ''k'' (Some ''s'')"
  let ?r1 = "rpc_evict demo_connector ?k"
  let ?r2 = "rpc_get demo_connector ?k"
  let ?r3 = "rpc_put ?k [2]"
  let ?d2 = "[''s'' \<mapsto> Bytes [1]]"
  let ?d3 = "[''s'' \<mapsto> Stream (end_stream new_stream)]"
  have sid: "stream_id ?k = Some ''s''" by (simp add: demo_key_def)
  have e1: "server_evict ?k Map.empty = (Raise (KeyError ''s''), Map.empty)"
    by (simp add: server_evict_def sid)
  have e2: "server_get ?k (Some ''client'') ?d2 = (Raise AttributeError, ?d2)"
    by (simp add: server_get_def sid)
  have e3: "server_put ?k [2] ?d3 = (Raise InvalidStateError, ?d3)"
    by (simp add: server_put_def sid append_def end_stream_def new_stream_def)
  have s1: "operation ?r1 = ''evict''" "key ?r1 = ?k" by (simp_all add: rpc_evict_def)
  have s2: "operation ?r2 = ''get''" "key ?r2 = ?k" "client_id ?r2 = Some ''client''"
    by (simp_all add: rpc_get_def demo_connector_def)
  have s3: "operation ?r3 = ''put''" "key ?r3 = ?k" "data ?r3 = Some [2]"
    by (simp_all add: rpc_put_def)
  have "handle_rpc ?r1 Map.empty
     = (Return ((response ''evict'' ?k)\<lparr>resp_exception := Some (KeyError ''s'')\<rparr>), Map.empty)"
    using handle_rpc_isolates_failures[of ?r1 Map.empty "KeyError ''s''"]
    by (simp only: s1 e1 fst_conv snd_conv simp_thms)
  moreover have "handle_rpc ?r2 ?d2
     = (Return ((response ''get'' ?k)\<lparr>resp_exception := Some AttributeError\<rparr>), ?d2)"
    using handle_rpc_isolates_failures[of ?r2 ?d2 AttributeError]
    by (simp only: s2 e2 fst_conv snd_conv simp_thms)
  moreover have "handle_rpc ?r3 ?d3
     = (Return ((response ''put'' ?k)\<lparr>resp_exception := Some InvalidStateError\<rparr>), ?d3)"
    using handle_rpc_isolates_failures[of ?r3 ?d3 InvalidStateError "[2]"]
    by (simp only: s3 e3 fst_conv snd_conv simp_thms)
  ultimately show ?thesis by (simp only: simp_thms)
qed

text \<open>
  C4. Evicting a key whose \<open>stream_id\<close> names a stream of the store returns normally,
  also through \<open>handle_rpc\<close>, and in the store it leaves the key's own \<open>obj_id\<close> and
  every id the stream recorded are absent, the stream is ended if it is still there,
  and every other entry is as before. \<open>exists\<close> is then false for the key and for
  every key with one of the recorded ids.
\<close>

theorem evict_stream_cascades:
  assumes "stream_id k = Some s" and "d s = Some (Stream st)"
  shows "\<exists>d'. server_evict k d = (Return (), d')
      \<and> handle_rpc \<lparr>operation = ''evict'', key = k, data = None, client_id = c\<rparr> d
           = (Return (response ''evict'' k), d')
      \<and> (\<forall>i. d' i = (if i = obj_id k \<or> i \<in> set (proxy_uuids st) then None
                       else if i = s then Some (Stream (end_stream st)) else d i))
      \<and> \<not> server_exists k d'
      \<and> (\<forall>k'. obj_id k' \<in> set (proxy_uuids st) \<longrightarrow> \<not> server_exists k' d')
      \<and> (\<forall>st'. d' s = Some (Stream st') \<longrightarrow> ended st')"
  using assms
  by (auto simp: server_evict_def handle_rpc_def dispatch_def server_exists_def
        pop_all_apply end_stream_def Let_def)

theorem evict_stream_cascades_witness:
  "stream_id (demo_key ''s'' (Some ''s'')) = Some ''s''
 \<and> demo_store ''s'' = Some (Stream demo_stream)
 \<and> (\<exists>d'. server_evict (demo_key ''s'' (Some ''s'')) demo_store = (Return (), d')
        \<and> \<not> server_exists (demo_key ''s'' (Some ''s'')) d'
        \<and> \<not> server_exists (demo_key ''p'' None) d'
        \<and> \<not> server_exists (demo_key ''q'' None) d'
        \<and> d' ''z'' = Some (Bytes [3]))"
proof -
  let ?k = "demo_key ''s'' (Some ''s'')"
  have h1: "stream_id ?k = Some ''s''" by (simp add: demo_key_def)
  have h2: "demo_store ''s'' = Some (Stream demo_stream)" by (simp add: demo_store_def)
  have ids: "obj_id ?k = ''s''" "obj_id (demo_key ''p'' None) = ''p''"
    "obj_id (demo_key ''q'' None) = ''q''" "proxy_uuids demo_stream = [''p'', ''q'']"
    by (simp_all add: demo_key_def demo_stream_def)
  from evict_stream_cascades[of ?k "''s''" demo_store demo_stream, OF h1 h2] obtain d' where
    ev: "server_evict ?k demo_store = (Return (), d')"
    and ch: "\<forall>i. d' i = (if i = obj_id ?k \<or> i \<in> set (proxy_uuids demo_stream) then None
                       else if i = ''s'' then Some (Stream (end_stream demo_stream)) else demo_store i)"
    by blast
  have "d' ''s'' = None" using ch by (simp add: ids)
  moreover have "d' ''p'' = None" using ch by (simp add: ids)
  moreover have "d' ''q'' = None" using ch by (simp add: ids)
  moreover have "d' ''z'' = Some (Bytes [3])" using ch by (simp add: ids demo_store_def)
  ultimately have "\<not> server_exists ?k d' \<and> \<not> server_exists (demo_key ''p'' None) d'
        \<and> \<not> server_exists (demo_key ''q'' None) d' \<and> d' ''z'' = Some (Bytes [3])"
    by (simp add: server_exists_def ids)
  with ev h1 h2 show ?thesis by blast
qed

text \<open>
  C6, as the claim states it, fails: a put request without data is answered with an
  AssertionError, not an InvalidStateError.
\<close>

theorem put_without_data_counterexample:
  "fst (handle_rpc \<lparr>operation = ''put'', key = demo_key ''k'' None, data = None, client_id = None\<rparr>
          Map.empty)
     \<noteq> Return ((response ''put'' (demo_key ''k'' None))\<lparr>resp_exception := Some InvalidStateError\<rparr>)"
  by (simp add: handle_rpc_def dispatch_def response_def)

text \<open>
  C6, amended. A put request whose data is absent fails on the server's \<^verbatim>\<open>assert\<close>: the
  response carries the operation and the key of the request and an AssertionError as
  its exception, and the store is unchanged.
\<close>

theorem put_without_data_assertion:
  "operation rpc = ''put'' \<Longrightarrow> data rpc = None \<Longrightarrow>
   handle_rpc rpc d =
     (Return ((response ''put'' (key rpc))\<lparr>resp_exception := Some (AssertionError [])\<rparr>), d)"
  by (simp add: handle_rpc_def dispatch_def)

theorem put_without_data_assertion_witness:
  "handle_rpc \<lparr>operation = ''put'', key = demo_key ''k'' None, data = None, client_id = None\<rparr>
      demo_store
     = (Return ((response ''put'' (demo_key ''k'' None))\<lparr>resp_exception := Some (AssertionError [])\<rparr>),
        demo_store)"
proof -
  let ?r = "\<lparr>operation = ''put'', key = demo_key ''k'' None, data = None, client_id = None\<rparr>"
  have h1: "operation ?r = ''put''" by simp
  have h2: "data ?r = None" by simp
  have k: "key ?r = demo_key ''k'' None" by simp
  from put_without_data_assertion[OF h1 h2, of demo_store] show ?thesis
    by (simp only: k)
qed

text \<open>
  C9. Streams and payloads share the one dictionary: after a put whose key carries
  \<open>stream_id = s\<close>, whether it returned or raised, \<open>exists\<close> is true for every key
  whose \<open>obj_id\<close> is \<open>s\<close>; and when \<open>s\<close> was absent and differs from the key's
  \<open>obj_id\<close>, the entry under \<open>s\<close> is the new stream holding that one id, not a payload.
\<close>

theorem stream_id_exists_after_put:
  assumes "stream_id k = Some s"
  shows "(\<forall>k'. obj_id k' = s \<longrightarrow> server_exists k' (snd (server_put k b d)))
       \<and> (d s = None \<and> obj_id k \<noteq> s \<longrightarrow>
            server_put k b d =
              (Return (),
               (d(s \<mapsto> Stream (new_stream\<lparr>proxy_uuids := [obj_id k]\<rparr>)))(obj_id k \<mapsto> Bytes b)))"
  using assms
  by (auto simp: server_put_def server_exists_def append_def new_stream_def Let_def
           split: option.splits entry.splits sum.splits)

theorem stream_id_exists_after_put_witness:
  "stream_id (demo_key ''k'' (Some ''s'')) = Some ''s''
 \<and> server_exists (demo_key ''s'' None) (snd (server_put (demo_key ''k'' (Some ''s'')) [7] Map.empty))
 \<and> server_put (demo_key ''k'' (Some ''s'')) [7] Map.empty
      = (Return (), [''s'' \<mapsto> Stream (new_stream\<lparr>proxy_uuids := [''k'']\<rparr>), ''k'' \<mapsto> Bytes [7]])"
proof -
  let ?k = "demo_key ''k'' (Some ''s'')"
  have h: "stream_id ?k = Some ''s''" by (simp add: demo_key_def)
  have ids: "obj_id ?k = ''k''" "obj_id (demo_key ''s'' None) = ''s''" by (simp_all add: demo_key_def)
  note t = stream_id_exists_after_put[OF h, of "[7]" Map.empty]
  from t have "server_exists (demo_key ''s'' None) (snd (server_put ?k [7] Map.empty))"
    using ids(2) by blast
  moreover from t have "server_put ?k [7] Map.empty
      = (Return (), [''s'' \<mapsto> Stream (new_stream\<lparr>proxy_uuids := [''k'']\<rparr>), ''k'' \<mapsto> Bytes [7]])"
    by (simp add: ids)
  ultimately show ?thesis using h by blast
qed

text \<open>
  C10. For a key whose \<open>stream_id\<close> is \<open>s\<close> with no entry under \<open>s\<close> in the store, get
  and evict raise \<open>KeyError s\<close> and leave the store unchanged, and \<open>handle_rpc\<close> returns
  that error in the exception of its response; evicting an absent key without
  \<open>stream_id\<close> returns normally with the store unchanged.
\<close>

theorem missing_stream_key_error:
  "(stream_id k = Some s \<and> d s = None \<longrightarrow>
      server_get k h d = (Raise (KeyError s), d)
    \<and> server_evict k d = (Raise (KeyError s), d)
    \<and> handle_rpc \<lparr>operation = ''get'', key = k, data = None, client_id = h\<rparr> d
        = (Return ((response ''get'' k)\<lparr>resp_exception := Some (KeyError s)\<rparr>), d)
    \<and> handle_rpc \<lparr>operation = ''evict'', key = k, data = None, client_id = h\<rparr> d
        = (Return ((response ''evict'' k)\<lparr>resp_exception := Some (KeyError s)\<rparr>), d))
 \<and> (stream_id k = None \<and> d (obj_id k) = None \<longrightarrow>
      server_evict k d = (Return (), d)
    \<and> handle_rpc \<lparr>operation = ''evict'', key = k, data = None, client_id = h\<rparr> d
        = (Return (response ''evict'' k), d))"
  by (auto simp: server_get_def server_evict_def handle_rpc_def dispatch_def)

theorem missing_stream_key_error_witness:
  "server_get (demo_key ''k'' (Some ''s'')) (Some ''client'') [''z'' \<mapsto> Bytes [3]]
     = (Raise (KeyError ''s''), [''z'' \<mapsto> Bytes [3]])
 \<and> server_evict (demo_key ''k'' (Some ''s'')) [''z'' \<mapsto> Bytes [3]]
     = (Raise (KeyError ''s''), [''z'' \<mapsto> Bytes [3]])
 \<and> server_evict (demo_key ''k'' None) [''z'' \<mapsto> Bytes [3]] = (Return (), [''z'' \<mapsto> Bytes [3]])"
  using missing_stream_key_error
          [of "demo_key ''k'' (Some ''s'')" "''s''" "[''z'' \<mapsto> Bytes [3]]" "Some ''client''"]
        missing_stream_key_error
          [of "demo_key ''k'' None" "''s''" "[''z'' \<mapsto> Bytes [3]]" "Some ''client''"]
  by (simp add: demo_key_def)

section \<open>Construction, configuration and close\<close>

lemma init_params:
  "init env u p a i cl t net = (Return c', net') \<Longrightarrow>
     priv_address c' = a \<and> priv_interface c' = i \<and> port c' = p
   \<and> chunk_length c' = (case cl of None \<Rightarrow> MAX_CHUNK_LENGTH_DEFAULT | Some n \<Rightarrow> n) \<and> timeout c' = t"
  by (auto simp: init_def Let_def spawn_server_def split: outcome.splits if_splits prod.splits option.splits)

lemma init_total:
  "timely env t \<Longrightarrow> \<exists>c' net'. init env u p a i cl t net = (Return c', net')"
  by (auto simp: init_def Let_def spawn_server_def wait_for_server_def split: outcome.splits if_splits prod.splits option.splits)

lemma from_config_config:
  "from_config env u (config c) net
     = init env u (port c) (priv_address c) (priv_interface c) (Some (chunk_length c)) (timeout c) net"
  by (simp add: from_config_def config_def kwarg_def split: option.splits)

text \<open>
  C7. \<open>config\<close> lists exactly the names address, interface, port, chunk_length and
  timeout. Whenever \<open>from_config\<close> on that configuration returns a connector, its
  \<^verbatim>\<open>_address\<close>, \<^verbatim>\<open>_interface\<close>, \<^verbatim>\<open>port\<close>, \<^verbatim>\<open>chunk_length\<close> and \<^verbatim>\<open>timeout\<close> are the
  original's, and so is its configuration; and it does return one when a pong can
  arrive within the timeout.
\<close>

theorem config_round_trip:
  "map fst (config c) = [''address'', ''interface'', ''port'', ''chunk_length'', ''timeout'']
 \<and> (\<forall>c' net'. from_config env u (config c) net = (Return c', net') \<longrightarrow>
        priv_address c' = priv_address c \<and> priv_interface c' = priv_interface c
      \<and> port c' = port c \<and> chunk_length c' = chunk_length c \<and> timeout c' = timeout c
      \<and> config c' = config c)
 \<and> (timely env (timeout c) \<longrightarrow> (\<exists>c' net'. from_config env u (config c) net = (Return c', net')))"
proof (intro conjI allI impI)
  show "map fst (config c) = [''address'', ''interface'', ''port'', ''chunk_length'', ''timeout'']"
    by (simp add: config_def)
next
  fix c' net'
  assume "from_config env u (config c) net = (Return c', net')"
  then have "init env u (port c) (priv_address c) (priv_interface c) (Some (chunk_length c)) (timeout c) net
      = (Return c', net')"
    by (simp add: from_config_config)
  from init_params[OF this]
  have p: "priv_address c' = priv_address c" "priv_interface c' = priv_interface c"
    "port c' = port c" "chunk_length c' = chunk_length c" "timeout c' = timeout c"
    by simp_all
  then show "priv_address c' = priv_address c" "priv_interface c' = priv_interface c"
    "port c' = port c" "chunk_length c' = chunk_length c" "timeout c' = timeout c"
    "config c' = config c"
    by (simp_all add: config_def)
next
  assume "timely env (timeout c)"
  from init_total[OF this]
  show "\<exists>c' net'. from_config env u (config c) net = (Return c', net')"
    by (simp add: from_config_config)
qed

theorem config_round_trip_witness:
  "timely demo_environment (timeout demo_connector)
 \<and> (\<exists>c' net'. from_config demo_environment demo_uuid (config demo_connector) demo_network = (Return c', net')
        \<and> priv_address c' = Some ''10.0.0.1'' \<and> priv_interface c' = None \<and> port c' = 5555
        \<and> chunk_length c' = 65536 \<and> timeout c' = 1)"
proof -
  have t: "timely demo_environment (timeout demo_connector)"
    by (simp add: demo_environment_def demo_connector_def)
  note rt = config_round_trip[of demo_connector demo_environment demo_uuid demo_network]
  from rt t obtain c' net' where
    r: "from_config demo_environment demo_uuid (config demo_connector) demo_network = (Return c', net')"
    by blast
  with rt have "priv_address c' = priv_address demo_connector \<and> priv_interface c' = priv_interface demo_connector
      \<and> port c' = port demo_connector \<and> chunk_length c' = chunk_length demo_connector
      \<and> timeout c' = timeout demo_connector"
    by blast
  then have "priv_address c' = Some ''10.0.0.1'' \<and> priv_interface c' = None \<and> port c' = 5555
        \<and> chunk_length c' = 65536 \<and> timeout c' = 1"
    by (simp add: demo_connector_def)
  with r t show ?thesis by blast
qed

text \<open>
  C8. A connector whose \<^verbatim>\<open>server\<close> is \<open>None\<close> leaves the network as it is on \<open>close\<close>,
  whatever \<open>kill_server\<close> is: only its socket and its context are closed. And a
  construction whose first probe succeeded yields such a connector and spawns
  nothing.
\<close>

theorem close_keeps_attached_server:
  "(server c = None \<longrightarrow>
      close c kill_server net = (c\<lparr>socket_open := False, context_live := False\<rparr>, net))
 \<and> (init env u p a i cl t net0 = (Return c, net1)
      \<and> wait_for_server env (address c) p t net0 = Return () \<longrightarrow>
      server c = None \<and> net1 = net0)"
proof (intro conjI impI)
  assume "server c = None"
  then show "close c kill_server net = (c\<lparr>socket_open := False, context_live := False\<rparr>, net)"
    by (simp add: close_def)
next
  assume a: "init env u p a i cl t net0 = (Return c, net1)
      \<and> wait_for_server env (address c) p t net0 = Return ()"
  then show "server c = None" "net1 = net0"
    by (auto simp: init_def Let_def spawn_server_def wait_for_server_def
             split: outcome.splits if_splits prod.splits option.splits)
qed

theorem close_keeps_attached_server_witness:
  "server demo_connector = None
 \<and> close demo_connector True demo_network
     = (demo_connector\<lparr>socket_open := False, context_live := False\<rparr>, demo_network)
 \<and> init demo_environment demo_uuid 5555 (Some ''10.0.0.1'') None None 1 demo_network
     = (Return (demo_connector\<lparr>priv_client_id := ''a''\<rparr>), demo_network)"
proof -
  have s: "server demo_connector = None" by (simp add: demo_connector_def)
  have w: "wait_for_server demo_environment ''10.0.0.1'' 5555 1 demo_network = Return ()"
    by (simp add: wait_for_server_def demo_environment_def demo_network_def)
  have i: "init demo_environment demo_uuid 5555 (Some ''10.0.0.1'') None None 1 demo_network
     = (Return (demo_connector\<lparr>priv_client_id := ''a''\<rparr>), demo_network)"
    by (simp add: init_def Let_def w demo_connector_def demo_uuid_def MAX_CHUNK_LENGTH_DEFAULT_def)
  from close_keeps_attached_server[of demo_connector True demo_network] s
  have "close demo_connector True demo_network
     = (demo_connector\<lparr>socket_open := False, context_live := False\<rparr>, demo_network)"
    by blast
  with s i show ?thesis by blast
qed

section \<open>Failures reported by the server\<close>

lemma exchange_wire:
  "exchange rpc net = (out, net') \<Longrightarrow>
     (\<exists>resp. out = Return resp \<and> wire net' = wire net @ [Sent rpc, Received resp])
   \<or> (out = Blocked \<and> wire net' = wire net @ [Sent rpc])"
  by (auto simp: exchange_def Let_def split: option.splits prod.splits outcome.splits)

lemma send_rpcs_surfaces: "surfaces net (send_rpcs c rpcs net)"
proof (induction rpcs arbitrary: net)
  case Nil
  show ?case by (simp add: surfaces_def)
next
  case (Cons rpc rpcs)
  show ?case
  proof (cases "socket_open c")
    case False
    then show ?thesis by (simp add: surfaces_def)
  next
    case True
    obtain out net1 where ex: "exchange rpc net = (out, net1)" by (cases "exchange rpc net")
    from exchange_wire[OF ex] show ?thesis
    proof
      assume "out = Blocked \<and> wire net1 = wire net @ [Sent rpc]"
      with True ex show ?thesis by (simp add: surfaces_def)
    next
      assume "\<exists>resp. out = Return resp \<and> wire net1 = wire net @ [Sent rpc, Received resp]"
      then obtain resp where r: "out = Return resp" "wire net1 = wire net @ [Sent rpc, Received resp]"
        by blast
      show ?thesis
      proof (cases "resp_exception resp")
        case (Some e)
        with True ex r show ?thesis by (simp add: surfaces_def)
      next
        case None
        from Cons.IH[of net1] obtain evs where
          evs: "wire (snd (send_rpcs c rpcs net1)) = wire net1 @ evs"
            "\<forall>r e. Received r \<in> set evs \<longrightarrow> resp_exception r = Some e
                 \<longrightarrow> fst (send_rpcs c rpcs net1) = Raise e"
          unfolding surfaces_def by blast
        obtain out2 net2 where s2: "send_rpcs c rpcs net1 = (out2, net2)"
          by (cases "send_rpcs c rpcs net1")
        show ?thesis
          using True ex r None evs s2
          by (cases out2) (auto simp: surfaces_def)
      qed
    qed
  qed
qed

lemma surfaces_map:
  assumes "surfaces net (out, net')" and "\<And>e. out = Raise e \<Longrightarrow> out' = Raise e"
  shows "surfaces net (out', net')"
  using assms unfolding surfaces_def by fastforce

lemma surfaces_same: "surfaces net (out, net)"
  unfolding surfaces_def by simp

lemma surfaces_send:
  assumes "send_rpcs c rpcs net = (out, net')" and "\<And>e. out = Raise e \<Longrightarrow> out' = Raise e"
  shows "surfaces net (out', net')"
  using send_rpcs_surfaces[of net c rpcs] assms(1) surfaces_map[OF _ assms(2)] by simp

lemma put_surfaces: "surfaces net (connector_put c u obj k net)"
proof -
  define rpcs where "rpcs = [rpc_put (case k of None \<Rightarrow> data_key c (u 0) obj None
                | Some k' \<Rightarrow> data_key c (u 0) obj (stream_id k')) obj]"
  obtain out net' where s: "send_rpcs c rpcs net = (out, net')" by (cases "send_rpcs c rpcs net")
  have "connector_put c u obj k net
      = ((case out of Return rs \<Rightarrow> Return k | Raise e \<Rightarrow> Raise e | Blocked \<Rightarrow> Blocked), net')"
    unfolding connector_put_def Let_def rpcs_def[symmetric] s by (cases out) simp_all
  moreover have "surfaces net
      ((case out of Return rs \<Rightarrow> Return k | Raise e \<Rightarrow> Raise e | Blocked \<Rightarrow> Blocked), net')"
    by (rule surfaces_send[OF s]) simp
  ultimately show ?thesis by simp
qed

lemma put_batch_surfaces: "surfaces net (connector_put_batch c u objs k net)"
proof (cases "objs \<noteq> [] \<and> k = None")
  case True
  then show ?thesis by (simp add: connector_put_batch_def surfaces_same)
next
  case False
  define keys where "keys = batch_keys c u objs (case k of None \<Rightarrow> None | Some k' \<Rightarrow> stream_id k')"
  obtain out net' where s: "send_rpcs c (batch_rpcs keys objs) net = (out, net')"
    by (cases "send_rpcs c (batch_rpcs keys objs) net")
  have "connector_put_batch c u objs k net
      = ((case out of Return rs \<Rightarrow> Return keys | Raise e \<Rightarrow> Raise e | Blocked \<Rightarrow> Blocked), net')"
    using False unfolding connector_put_batch_def Let_def keys_def[symmetric] s
    by (cases out) auto
  moreover have "surfaces net
      ((case out of Return rs \<Rightarrow> Return keys | Raise e \<Rightarrow> Raise e | Blocked \<Rightarrow> Blocked), net')"
    by (rule surfaces_send[OF s]) simp
  ultimately show ?thesis by simp
qed

lemma get_surfaces: "surfaces net (connector_get c ko net)"
proof (cases ko)
  case None
  then show ?thesis by (simp add: connector_get_def surfaces_same)
next
  case (Some k)
  obtain out net' where s: "send_rpcs c [rpc_get c k] net = (out, net')"
    by (cases "send_rpcs c [rpc_get c k] net")
  have "fst (connector_get c ko net) = Raise e" if "out = Raise e" for e
    using that Some s by (simp add: connector_get_def)
  moreover have "snd (connector_get c ko net) = net'"
    using Some s by (simp add: connector_get_def split: outcome.splits list.splits)
  ultimately show ?thesis
    using surfaces_send[OF s, of "fst (connector_get c ko net)"] by (metis prod.collapse)
qed

lemma get_batch_surfaces: "surfaces net (connector_get_batch c keys net)"
proof -
  obtain out net' where s: "send_rpcs c (map (rpc_get c) keys) net = (out, net')"
    by (cases "send_rpcs c (map (rpc_get c) keys) net")
  have "fst (connector_get_batch c keys net) = Raise e" if "out = Raise e" for e
    using that s by (simp add: connector_get_batch_def)
  moreover have "snd (connector_get_batch c keys net) = net'"
    using s by (simp add: connector_get_batch_def split: outcome.splits)
  ultimately show ?thesis
    using surfaces_send[OF s, of "fst (connector_get_batch c keys net)"] by (metis prod.collapse)
qed

lemma exists_surfaces: "surfaces net (connector_exists c k net)"
proof -
  obtain out net' where s: "send_rpcs c [rpc_exists k] net = (out, net')"
    by (cases "send_rpcs c [rpc_exists k] net")
  have "fst (connector_exists c k net) = Raise e" if "out = Raise e" for e
    using that s by (simp add: connector_exists_def)
  moreover have "snd (connector_exists c k net) = net'"
    using s by (simp add: connector_exists_def split: outcome.splits list.splits option.splits)
  ultimately show ?thesis
    using surfaces_send[OF s, of "fst (connector_exists c k net)"] by (metis prod.collapse)
qed

lemma evict_surfaces: "surfaces net (connector_evict c k net)"
proof -
  obtain out net' where s: "send_rpcs c [rpc_evict c k] net = (out, net')"
    by (cases "send_rpcs c [rpc_evict c k] net")
  have "fst (connector_evict c k net) = Raise e" if "out = Raise e" for e
    using that s by (simp add: connector_evict_def)
  moreover have "snd (connector_evict c k net) = net'"
    using s by (simp add: connector_evict_def split: outcome.splits)
  ultimately show ?thesis
    using surfaces_send[OF s, of "fst (connector_evict c k net)"] by (metis prod.collapse)
qed

text \<open>
  C5. For put, put_batch, get, get_batch, exists and evict: every response received
  during the call that carries an exception is the error the call raises. So no call
  returns a value, or another error, after the server reported a failure.
\<close>

theorem server_failure_surfaces:
  "surfaces net (connector_put c u obj k net)
 \<and> surfaces net (connector_put_batch c u objs k net)
 \<and> surfaces net (connector_get c ko net)
 \<and> surfaces net (connector_get_batch c keys net)
 \<and> surfaces net (connector_exists c k' net)
 \<and> surfaces net (connector_evict c k' net)"
  by (simp add: put_surfaces put_batch_surfaces get_surfaces get_batch_surfaces
        exists_surfaces evict_surfaces)

lemma demo_evict_exchange:
  "exchange (rpc_evict demo_connector (demo_key ''k'' (Some ''s''))) demo_network
    = (Return ((response ''evict'' (demo_key ''k'' (Some ''s'')))\<lparr>resp_exception := Some (KeyError ''s'')\<rparr>),
       demo_network\<lparr>wire :=
         [Sent (rpc_evict demo_connector (demo_key ''k'' (Some ''s''))),
          Received ((response ''evict'' (demo_key ''k'' (Some ''s'')))\<lparr>resp_exception := Some (KeyError ''s'')\<rparr>)]\<rparr>)"
  by (simp add: exchange_def Let_def handle_rpc_def dispatch_def server_evict_def rpc_evict_def
        demo_key_def demo_network_def response_def)

theorem server_failure_surfaces_witness:
  "surfaces demo_network (connector_evict demo_connector (demo_key ''k'' (Some ''s'')) demo_network)
 \<and> Received ((response ''evict'' (demo_key ''k'' (Some ''s'')))\<lparr>resp_exception := Some (KeyError ''s'')\<rparr>)
      \<in> set (wire (snd (connector_evict demo_connector (demo_key ''k'' (Some ''s'')) demo_network)))
 \<and> fst (connector_evict demo_connector (demo_key ''k'' (Some ''s'')) demo_network) = Raise (KeyError ''s'')"
proof -
  let ?k = "demo_key ''k'' (Some ''s'')"
  let ?r = "(response ''evict'' ?k)\<lparr>resp_exception := Some (KeyError ''s'')\<rparr>"
  have o: "socket_open demo_connector" by (simp add: demo_connector_def)
  have e: "resp_exception ?r = Some (KeyError ''s'')" by simp
  have w: "wire (snd (connector_evict demo_connector ?k demo_network))
      = wire demo_network @ [Sent (rpc_evict demo_connector ?k), Received ?r]"
  proof -
    have "connector_evict demo_connector ?k demo_network
        = (Raise (KeyError ''s''),
           demo_network\<lparr>wire := [Sent (rpc_evict demo_connector ?k), Received ?r]\<rparr>)"
      by (simp add: connector_evict_def o demo_evict_exchange)
    then show ?thesis by (simp add: demo_network_def)
  qed
  have s: "surfaces demo_network (connector_evict demo_connector ?k demo_network)"
    using server_failure_surfaces[where net = demo_network and c = demo_connector and k' = ?k]
    by blast
  have m: "Received ?r \<in> set (wire (snd (connector_evict demo_connector ?k demo_network)))"
    by (simp add: w)
  from s obtain evs where
    ev: "wire (snd (connector_evict demo_connector ?k demo_network)) = wire demo_network @ evs"
    and r: "\<forall>r e. Received r \<in> set evs \<longrightarrow> resp_exception r = Some e
          \<longrightarrow> fst (connector_evict demo_connector ?k demo_network) = Raise e"
    unfolding surfaces_def by blast
  from ev w have "evs = [Sent (rpc_evict demo_connector ?k), Received ?r]" by simp
  then have "Received ?r \<in> set evs" by simp
  with r e have "fst (connector_evict demo_connector ?k demo_network) = Raise (KeyError ''s'')"
    by blast
  with s m show ?thesis by blast
qed

section \<open>Batches\<close>





lemma response_sel:
  "resp_operation (response opn k) = opn" "resp_key (response opn k) = k"
  "resp_exception (response opn k) = None" "resp_data (response opn k) = None"
  "resp_exists (response opn k) = None"
  by (simp_all add: response_def)

lemma rpc_put_sel: "operation (rpc_put k obj) = ''put''" "key (rpc_put k obj) = k" "data (rpc_put k obj) = Some obj"
  by (simp_all add: rpc_put_def)




lemma exchange_put:
  assumes "servers net (peer_host k, peer_port k) = Some d" and "stream_id k = None"
  shows "\<exists>net'. exchange (rpc_put k obj) net = (Return (response ''put'' k), net')
      \<and> servers net' = (servers net)((peer_host k, peer_port k) \<mapsto> d(obj_id k \<mapsto> Bytes obj))
      \<and> wire net' = wire net @ [Sent (rpc_put k obj), Received (response ''put'' k)]"
  using assms
  by (simp add: exchange_def rpc_put_def handle_rpc_def dispatch_def server_put_def Let_def)








lemma data_key_sel:
  "obj_id (data_key c uid obj sid) = uid" "stream_id (data_key c uid obj sid) = sid"
  "peer_host (data_key c uid obj sid) = address c" "peer_port (data_key c uid obj sid) = port c"
  "key_size (data_key c uid obj sid) = int (length obj)"
  by (simp_all add: data_key_def)








lemma put_no_key:
  assumes "socket_open c" and "servers net (address c, port c) = Some d"
  shows "\<exists>net'. connector_put c u obj None net = (Return None, net')
      \<and> servers net' = (servers net)((address c, port c) \<mapsto> d(u 0 \<mapsto> Bytes obj))"
proof -
  let ?k = "data_key c (u 0) obj None"
  have "servers net (peer_host ?k, peer_port ?k) = Some d" "stream_id ?k = None"
    using assms(2) by (simp_all add: data_key_sel)
  from exchange_put[OF this, of obj] obtain net' where
    ex: "exchange (rpc_put ?k obj) net = (Return (response ''put'' ?k), net')"
    and s: "servers net' = (servers net)((address c, port c) \<mapsto> d(u 0 \<mapsto> Bytes obj))"
    by (auto simp: data_key_sel)
  have "connector_put c u obj None net = (Return None, net')"
    by (simp add: connector_put_def assms(1) ex response_sel rpc_put_sel)
  with s show ?thesis by blast
qed

text \<open>
  C1. \<^verbatim>\<open>put\<close> ends with \<^verbatim>\<open>return key\<close>, the argument, where its docstring promises the
  key of the stored object (\<^verbatim>\<open>data_key\<close>). Called without a key on a running server it
  stores the payload under the fresh identifier and returns \<^verbatim>\<open>None\<close>; \<^verbatim>\<open>get\<close> of what it
  returned raises AttributeError.
\<close>

theorem put_without_key_returns_none:
  "fst (connector_put demo_connector demo_uuid [1, 2, 3] None demo_network) = Return None
 \<and> map_option (\<lambda>d. d ''a'')
      (servers (snd (connector_put demo_connector demo_uuid [1, 2, 3] None demo_network))
         (''10.0.0.1'', 5555))
     = Some (Some (Bytes [1, 2, 3]))
 \<and> fst (connector_get demo_connector None
           (snd (connector_put demo_connector demo_uuid [1, 2, 3] None demo_network)))
     = Raise AttributeError"
proof -
  have o: "socket_open demo_connector" by (simp add: demo_connector_def)
  have l: "servers demo_network (address demo_connector, port demo_connector) = Some Map.empty"
    by (simp add: demo_connector_def demo_network_def)
  from put_no_key[OF o l, of demo_uuid "[1, 2, 3]"] obtain net' where
    p: "connector_put demo_connector demo_uuid [1, 2, 3] None demo_network = (Return None, net')"
    and s: "servers net' = (servers demo_network)((address demo_connector, port demo_connector)
              \<mapsto> [demo_uuid 0 \<mapsto> Bytes [1, 2, 3]])"
    by blast
  have "servers net' (''10.0.0.1'', 5555) = Some [''a'' \<mapsto> Bytes [1, 2, 3]]"
    by (simp add: s demo_connector_def demo_uuid_def)
  then show ?thesis
    by (simp add: p connector_get_def)
qed



end
